theory Spec2Isabelle
  imports Main "HOL-Library.Word"
begin

section \<open>The data model of \<^verbatim>\<open>aligator/gar/lqr-problem.hpp\<close>\<close>

text \<open>
  The header declares two class templates, \<^verbatim>\<open>LqrKnotTpl<Scalar>\<close> and
  \<^verbatim>\<open>LqrProblemTpl<Scalar>\<close>. Their blocks are \<^verbatim>\<open>ManagedMatrix\<close> objects; that class
  lives in \<^verbatim>\<open>aligator/memory/managed-matrix.hpp\<close>, which is not part of the sources at
  hand, so the type of a block is the type parameter \<open>'m\<close> of the records below (a vector
  is a one-column instance of the same template). The allocator is not modelled: no
  function below depends on it.

  \<^verbatim>\<open>uint\<close> is a 32-bit unsigned integer, \<^verbatim>\<open>int\<close> a 32-bit signed one.
\<close>

type_synonym uint = "32 word"

text \<open>
  The fields of a knot keep the names of the source, except for the blocks with a
  one-letter name and for \<^verbatim>\<open>nth\<close>, which carry the suffix \<open>_k\<close>: a field named \<open>f\<close> or
  \<open>nth\<close> would hide the variables and the list function of these names.
\<close>

record 'm LqrKnotTpl =
  nx :: uint
  nu :: uint
  nc :: uint
  nx2 :: uint
  nth_k :: uint
  Q_k :: 'm
  S_k :: 'm
  R_k :: 'm
  q_k :: 'm
  r_k :: 'm
  A_k :: 'm
  B_k :: 'm
  E_k :: 'm
  f_k :: 'm
  C_k :: 'm
  D_k :: 'm
  d_k :: 'm
  Gth :: 'm
  Gx :: 'm
  Gu :: 'm
  Gv :: 'm
  gamma :: 'm

record 'm LqrProblemTpl =
  G0 :: 'm
  g0 :: 'm
  stages :: "'m LqrKnotTpl list"

text \<open>
  \<^verbatim>\<open>stages[i]\<close> is \<^verbatim>\<open>std::vector::operator[]\<close>: it checks nothing, and an index that is
  not below \<^verbatim>\<open>size()\<close> is undefined behaviour. The model makes that an error value.
\<close>

datatype error = OutOfBounds

definition vec_at :: "'a list \<Rightarrow> nat \<Rightarrow> error + 'a" where
  "vec_at xs i = (if i < length xs then Inr (xs ! i) else Inl OutOfBounds)"

section \<open>Blocks and knots used as concrete inputs\<close>

text \<open>
  Modelled from the spec: \<^verbatim>\<open>ManagedMatrix\<close> (the spec's Managed Buffer) is missing from the
  sources. The spec gives it an explicit shape (rows, and columns for a matrix) and
  scalar entries; here the entries are kept row by row. A vector of dimension \<open>n\<close> is the
  buffer of shape \<open>n \<times> 1\<close>.
\<close>

record 'a ManagedMatrix =
  rows :: nat
  cols :: nat
  coeffs :: "'a list list"

definition zero_matrix :: "nat \<Rightarrow> nat \<Rightarrow> 'a::zero ManagedMatrix" where
  "zero_matrix r c = \<lparr>rows = r, cols = c, coeffs = replicate r (replicate c 0)\<rparr>"

text \<open>
  Modelled from the spec: the constructor \<^verbatim>\<open>LqrKnotTpl(nx, nu, nc, nx2, nth, alloc)\<close> is
  declared in the header and defined elsewhere. By the spec it zero-initializes all
  blocks, with the shapes of the spec's data model: \<open>Q (nx \<times> nx)\<close>, \<open>S (nx \<times> nu)\<close>,
  \<open>R (nu \<times> nu)\<close>, \<open>q (nx)\<close>, \<open>r (nu)\<close>, \<open>A (nx2 \<times> nx)\<close>, \<open>B (nx2 \<times> nu)\<close>, \<open>E (nx2 \<times> nx2)\<close>,
  \<open>f (nx2)\<close>, \<open>C (nc \<times> nx)\<close>, \<open>D (nc \<times> nu)\<close>, \<open>d (nc)\<close>, \<open>Gth (nth \<times> nth)\<close>,
  \<open>Gx (nth \<times> nx)\<close>, \<open>Gu (nth \<times> nu)\<close>, \<open>Gv (nc \<times> nth)\<close>, \<open>gamma (nth)\<close>.
  It serves to write down concrete knots.
\<close>

definition LqrKnot :: "uint \<Rightarrow> uint \<Rightarrow> uint \<Rightarrow> uint \<Rightarrow> uint \<Rightarrow> 'a::zero ManagedMatrix LqrKnotTpl" where
  "LqrKnot vx vu vc vx2 vth =
     \<lparr>nx = vx, nu = vu, nc = vc, nx2 = vx2, nth_k = vth,
      Q_k = zero_matrix (unat vx) (unat vx),
      S_k = zero_matrix (unat vx) (unat vu),
      R_k = zero_matrix (unat vu) (unat vu),
      q_k = zero_matrix (unat vx) 1,
      r_k = zero_matrix (unat vu) 1,
      A_k = zero_matrix (unat vx2) (unat vx),
      B_k = zero_matrix (unat vx2) (unat vu),
      E_k = zero_matrix (unat vx2) (unat vx2),
      f_k = zero_matrix (unat vx2) 1,
      C_k = zero_matrix (unat vc) (unat vx),
      D_k = zero_matrix (unat vc) (unat vu),
      d_k = zero_matrix (unat vc) 1,
      Gth = zero_matrix (unat vth) (unat vth),
      Gx = zero_matrix (unat vth) (unat vx),
      Gu = zero_matrix (unat vth) (unat vu),
      Gv = zero_matrix (unat vc) (unat vth),
      gamma = zero_matrix (unat vth) 1\<rparr>"

text \<open>
  The knot of the spec's scenario (\<open>nx = 2\<close>, \<open>nu = 1\<close>, \<open>nc = 0\<close>, \<open>nx2 = 2\<close>, \<open>nth = 0\<close>),
  and a problem of \<open>n\<close> such knots with \<open>nc0 = 0\<close>. The scalars of the examples are
  integers.
\<close>

definition knot_210 :: "int ManagedMatrix LqrKnotTpl" where
  "knot_210 = LqrKnot 2 1 0 2 0"

definition problem_of :: "nat \<Rightarrow> int ManagedMatrix LqrProblemTpl" where
  "problem_of n = \<lparr>G0 = zero_matrix 0 2, g0 = zero_matrix 0 1, stages = replicate n knot_210\<rparr>"

text \<open>A knot of other dimensions (\<open>nx = 3\<close>, \<open>nu = 1\<close>, \<open>nc = 0\<close>, \<open>nx2 = 3\<close>, \<open>nth = 0\<close>).\<close>

definition knot_310 :: "int ManagedMatrix LqrKnotTpl" where
  "knot_310 = LqrKnot 3 1 0 3 0"

text \<open>
  A stand-in for the knot-level \<^verbatim>\<open>addParameterization\<close> where a concrete one is needed:
  it records the new parameter dimension and touches nothing else.
\<close>

definition set_nth :: "uint \<Rightarrow> 'm LqrKnotTpl \<Rightarrow> 'm LqrKnotTpl" where
  "set_nth n k = k\<lparr>nth_k := n\<rparr>"

section \<open>Metadata of a problem\<close>

text \<open>
  \<^verbatim>\<open>inline int horizon() const noexcept { return (int)stages.size() - 1; }\<close>

  \<^verbatim>\<open>size()\<close> is a \<^verbatim>\<open>size_t\<close>; the cast to \<^verbatim>\<open>int\<close> keeps its low 32 bits, read as two's
  complement (\<open>sint\<close>). The subtraction is written on the integers: its result leaves the
  range of \<^verbatim>\<open>int\<close> only when the cast gives \<^verbatim>\<open>INT_MIN\<close>, where the C++ is undefined.
  That is at the stage counts congruent to \<open>2 ^ 31\<close> modulo \<open>2 ^ 32\<close>; the theorems on
  what the functions return keep to stage counts of at most \<open>2 ^ 31 - 1\<close>.
\<close>

definition horizon :: "'m LqrProblemTpl \<Rightarrow> int" where
  "horizon p = sint (word_of_nat (length (stages p)) :: 32 word) - 1"

text \<open>The conversion \<^verbatim>\<open>(uint)horizon()\<close>, which reduces modulo \<open>2 ^ 32\<close>.\<close>

definition uint_horizon :: "'m LqrProblemTpl \<Rightarrow> uint" where
  "uint_horizon p = word_of_int (horizon p)"

text \<open>
  \<^verbatim>\<open>inline bool isParameterized() const { return !stages.empty() && (stages[0].nth > 0); }\<close>

  The conjunction is short-circuit: \<^verbatim>\<open>stages[0]\<close> is read only after the test for
  emptiness has succeeded.
\<close>

definition isParameterized :: "'m LqrProblemTpl \<Rightarrow> error + bool" where
  "isParameterized p =
     (if stages p \<noteq> [] then
        (case vec_at (stages p) 0 of
           Inl e \<Rightarrow> Inl e
         | Inr k \<Rightarrow> Inr (nth_k k > 0))
      else Inr False)"

text \<open>\<^verbatim>\<open>inline bool isInitialized() const { return !stages.empty(); }\<close>\<close>

definition isInitialized :: "'m LqrProblemTpl \<Rightarrow> bool" where
  "isInitialized p = (stages p \<noteq> [])"

text \<open>\<^verbatim>\<open>inline uint ntheta() const { return stages[0].nth; }\<close>\<close>

definition ntheta :: "'m LqrProblemTpl \<Rightarrow> error + uint" where
  "ntheta p =
     (case vec_at (stages p) 0 of
        Inl e \<Rightarrow> Inl e
      | Inr k \<Rightarrow> Inr (nth_k k))"

section \<open>Comparison of problems\<close>

text \<open>
  \<^verbatim>\<open>
  inline bool isApprox(const LqrProblemTpl &other) {
    if (horizon() != other.horizon() || !G0.isApprox(other.G0) ||
        !g0.isApprox(other.g0))
      return false;
    for (uint i = 0; i < uint(horizon()); i++) {
      if (!stages[i].isApprox(other.stages[i]))
        return false;
    }
    return true;
  }
  \<close>
  \<^verbatim>\<open>ManagedMatrix::isApprox\<close> and \<^verbatim>\<open>LqrKnotTpl::isApprox\<close> (at its default precision) are
  not defined in the header: they are the parameters \<open>mapprox\<close> and \<open>kapprox\<close>. The
  counter \<open>i\<close> and the bound are 32-bit unsigned; \<open>i < h\<close> keeps \<open>i + 1\<close> from wrapping.
  The loop reads \<^verbatim>\<open>stages[i]\<close> of both problems before it compares them.
\<close>

function isApprox_loop ::
  "('m LqrKnotTpl \<Rightarrow> 'm LqrKnotTpl \<Rightarrow> bool) \<Rightarrow> 'm LqrKnotTpl list \<Rightarrow> 'm LqrKnotTpl list
     \<Rightarrow> uint \<Rightarrow> uint \<Rightarrow> error + bool" where
  "isApprox_loop kapprox st ost h i =
     (if i < h then
        (case vec_at st (unat i) of
           Inl e \<Rightarrow> Inl e
         | Inr a \<Rightarrow>
            (case vec_at ost (unat i) of
               Inl e \<Rightarrow> Inl e
             | Inr b \<Rightarrow>
                if \<not> kapprox a b then Inr False
                else isApprox_loop kapprox st ost h (i + 1)))
      else Inr True)"
  by pat_completeness auto
termination
proof (relation "measure (\<lambda>(kapprox, st, ost, h, i). unat h - unat i)")
  show "wf (measure (\<lambda>(kapprox :: 'm LqrKnotTpl \<Rightarrow> 'm LqrKnotTpl \<Rightarrow> bool,
      st :: 'm LqrKnotTpl list, ost :: 'm LqrKnotTpl list, h :: uint, i :: uint). unat h - unat i))"
    by simp
next
  fix kapprox :: "'m LqrKnotTpl \<Rightarrow> 'm LqrKnotTpl \<Rightarrow> bool"
    and st ost :: "'m LqrKnotTpl list" and h i :: uint
  assume lt: "i < h"
  have "1 + i \<noteq> 0"
  proof
    assume "1 + i = 0"
    then have "i = - 1" by (simp add: add_eq_0_iff)
    with lt show False by simp
  qed
  then have "unat (i + 1) = Suc (unat i)"
    by (simp add: unatSuc add.commute)
  with lt show "((kapprox, st, ost, h, i + 1), (kapprox, st, ost, h, i))
      \<in> measure (\<lambda>(kapprox, st, ost, h, i). unat h - unat i)"
    by (simp add: word_less_nat_alt diff_less_mono2)
qed

declare isApprox_loop.simps [simp del]

definition isApprox ::
  "('m \<Rightarrow> 'm \<Rightarrow> bool) \<Rightarrow> ('m LqrKnotTpl \<Rightarrow> 'm LqrKnotTpl \<Rightarrow> bool)
     \<Rightarrow> 'm LqrProblemTpl \<Rightarrow> 'm LqrProblemTpl \<Rightarrow> error + bool" where
  "isApprox mapprox kapprox p other =
     (if horizon p \<noteq> horizon other then Inr False
      else if \<not> mapprox (G0 p) (G0 other) then Inr False
      else if \<not> mapprox (g0 p) (g0 other) then Inr False
      else isApprox_loop kapprox (stages p) (stages other) (uint_horizon p) 0)"

section \<open>Growing the parameterization of a problem\<close>

text \<open>
  \<^verbatim>\<open>
  void addParameterization(uint nth) {
    if (stages.empty())
      return;
    for (uint i = 0; i <= (uint)horizon(); i++) {
      stages[i].addParameterization(nth);
    }
  }
  \<close>
  \<^verbatim>\<open>LqrKnotTpl::addParameterization\<close> is declared in the header and defined elsewhere: it
  is the parameter \<open>kadd\<close>, the new value of the knot it is called on. With a bound of
  \<open>2 ^ 32 - 1\<close> the test \<open>i \<le> h\<close> never fails and the loop does not end, so the loop is a
  partial function: \<open>None\<close> stands for a run that does not return, \<open>Some (Inl e)\<close> for a
  read out of range, \<open>Some (Inr st)\<close> for the stages after the loop.
\<close>

partial_function (option) addParameterization_loop ::
  "(uint \<Rightarrow> 'm LqrKnotTpl \<Rightarrow> 'm LqrKnotTpl) \<Rightarrow> uint \<Rightarrow> uint \<Rightarrow> uint \<Rightarrow> 'm LqrKnotTpl list
     \<Rightarrow> (error + 'm LqrKnotTpl list) option" where
  "addParameterization_loop kadd n h i st =
     (if i \<le> h then
        (case vec_at st (unat i) of
           Inl e \<Rightarrow> Some (Inl e)
         | Inr k \<Rightarrow> addParameterization_loop kadd n h (i + 1) (st[unat i := kadd n k]))
      else Some (Inr st))"

definition addParameterization ::
  "(uint \<Rightarrow> 'm LqrKnotTpl \<Rightarrow> 'm LqrKnotTpl) \<Rightarrow> uint \<Rightarrow> 'm LqrProblemTpl
     \<Rightarrow> (error + 'm LqrProblemTpl) option" where
  "addParameterization kadd n p =
     (if stages p = [] then Some (Inr p)
      else
        (case addParameterization_loop kadd n (uint_horizon p) 0 (stages p) of
           None \<Rightarrow> None
         | Some (Inl e) \<Rightarrow> Some (Inl e)
         | Some (Inr st) \<Rightarrow> Some (Inr (p\<lparr>stages := st\<rparr>))))"

section \<open>Printing a knot\<close>

text \<open>
  \<^verbatim>\<open>fmt::format("... {:d}", n)\<close> renders an unsigned integer in decimal; \<^verbatim>\<open>fmt\<close> is a
  library outside the repository, and \<open>format_d\<close> is its \<^verbatim>\<open>{:d}\<close>.
\<close>

fun format_d :: "nat \<Rightarrow> string" where
  "format_d n =
     (if n < 10 then [''0123456789'' ! n]
      else format_d (n div 10) @ [''0123456789'' ! (n mod 10)])"

declare format_d.simps [simp del]

definition newline :: string where
  "newline = [CHR 0x0A]"

text \<open>
  \<^verbatim>\<open>
  std::ostream &operator<<(std::ostream &oss, const LqrKnotTpl<Scalar> &self_) {
    auto self = self_.to_const_view();
    oss << "LqrKnot {";
    oss << fmt::format("\n  nx:  {:d}", self.nx) //
        << fmt::format("\n  nu:  {:d}", self.nu) //
        << fmt::format("\n  nc:  {:d}", self.nc);
    if (self.nth > 0) {
      oss << fmt::format("\n  nth: {:d}", self.nth);
    }
  #ifndef NDEBUG
    oss << eigenPrintWithPreamble(self.Q, "\n  Q: ") //
        ...
        << eigenPrintWithPreamble(self.d, "\n  d: ");
    if (self.nth > 0) {
      oss << eigenPrintWithPreamble(self.Gth, "\n  Gth: ") //
          << eigenPrintWithPreamble(self.Gx, "\n  Gx: ")   //
          << eigenPrintWithPreamble(self.Gu, "\n  Gu: ")   //
          << eigenPrintWithPreamble(self.gamma, "\n  gamma: ");
    }
  #endif
    oss << "\n}";
    return oss;
  }
  \<close>
  The stream is the text written to it so far, and the operator returns the stream after
  the knot has been written. \<open>ndebug\<close> says whether the macro \<^verbatim>\<open>NDEBUG\<close> is defined (an
  optimized build). \<^verbatim>\<open>eigenPrintWithPreamble\<close> comes from \<^verbatim>\<open>aligator/math.hpp\<close>, which
  is not part of the sources at hand: it is a parameter, from a block and a preamble to
  the text of the block. The view \<^verbatim>\<open>self\<close> aliases the blocks of the knot.
\<close>

definition operator_shl ::
  "bool \<Rightarrow> ('m \<Rightarrow> string \<Rightarrow> string) \<Rightarrow> string \<Rightarrow> 'm LqrKnotTpl \<Rightarrow> string" where
  "operator_shl ndebug eigenPrintWithPreamble oss self =
     (let oss1 = oss @ ''LqrKnot {'';
          oss2 = oss1 @ (newline @ ''  nx:  '' @ format_d (unat (nx self)))
                      @ (newline @ ''  nu:  '' @ format_d (unat (nu self)))
                      @ (newline @ ''  nc:  '' @ format_d (unat (nc self)));
          oss3 = (if nth_k self > 0
                  then oss2 @ (newline @ ''  nth: '' @ format_d (unat (nth_k self)))
                  else oss2);
          oss4 = (if \<not> ndebug then
                    (let o1 = oss3 @ eigenPrintWithPreamble (Q_k self) (newline @ ''  Q: '')
                                   @ eigenPrintWithPreamble (S_k self) (newline @ ''  S: '')
                                   @ eigenPrintWithPreamble (R_k self) (newline @ ''  R: '')
                                   @ eigenPrintWithPreamble (q_k self) (newline @ ''  q: '')
                                   @ eigenPrintWithPreamble (r_k self) (newline @ ''  r: '');
                         o2 = o1 @ eigenPrintWithPreamble (A_k self) (newline @ ''  A: '')
                                 @ eigenPrintWithPreamble (B_k self) (newline @ ''  B: '')
                                 @ eigenPrintWithPreamble (E_k self) (newline @ ''  E: '')
                                 @ eigenPrintWithPreamble (f_k self) (newline @ ''  f: '');
                         o3 = o2 @ eigenPrintWithPreamble (C_k self) (newline @ ''  C: '')
                                 @ eigenPrintWithPreamble (D_k self) (newline @ ''  D: '')
                                 @ eigenPrintWithPreamble (d_k self) (newline @ ''  d: '')
                     in if nth_k self > 0
                        then o3 @ eigenPrintWithPreamble (Gth self) (newline @ ''  Gth: '')
                                @ eigenPrintWithPreamble (Gx self) (newline @ ''  Gx: '')
                                @ eigenPrintWithPreamble (Gu self) (newline @ ''  Gu: '')
                                @ eigenPrintWithPreamble (gamma self) (newline @ ''  gamma: '')
                        else o3)
                  else oss3)
      in oss4 @ (newline @ ''}''))"

section \<open>Growing the parameterization of a knot\<close>

text \<open>
  Modelled from the spec: the accessors of a \<^verbatim>\<open>ManagedMatrix\<close>, which is missing from the
  sources. \<open>coeff m i j\<close> is the entry in row \<open>i\<close> and column \<open>j\<close>; a buffer is well formed
  when its stored entries fill its declared shape.
\<close>

definition coeff :: "'a ManagedMatrix \<Rightarrow> nat \<Rightarrow> nat \<Rightarrow> 'a" where
  "coeff m i j = coeffs m ! i ! j"

definition wf_matrix :: "'a ManagedMatrix \<Rightarrow> bool" where
  "wf_matrix m =
     (length (coeffs m) = rows m \<and> list_all (\<lambda>row. length row = cols m) (coeffs m))"

definition has_shape :: "nat \<Rightarrow> nat \<Rightarrow> 'a ManagedMatrix \<Rightarrow> bool" where
  "has_shape r c m = (rows m = r \<and> cols m = c \<and> wf_matrix m)"

text \<open>
  Modelled from the spec: \<^verbatim>\<open>LqrKnotTpl::addParameterization(uint nth)\<close> is declared in the
  header (``reallocates entire buffer for contigousness'') and defined elsewhere. By the
  spec it grows the parameter blocks to dimension \<open>nth\<close>, keeps all cost, dynamics and
  constraint data, and produces \<open>Gth\<close>, \<open>Gx\<close>, \<open>Gu\<close>, \<open>Gv\<close>, \<open>gamma\<close> shaped for \<open>nth\<close> with
  the newly added entries zero; with the current \<open>nth\<close> it changes no value. The shapes
  are those of the spec's data model: \<open>Gth (nth \<times> nth)\<close>, \<open>Gx (nth \<times> nx)\<close>,
  \<open>Gu (nth \<times> nu)\<close>, \<open>Gv (nc \<times> nth)\<close>, \<open>gamma (nth)\<close>. \<open>grow_block r c m\<close> is the buffer
  of shape \<open>r \<times> c\<close> that has the entries of \<open>m\<close> where \<open>m\<close> has them and zero elsewhere.
\<close>

definition grow_block :: "nat \<Rightarrow> nat \<Rightarrow> 'a::zero ManagedMatrix \<Rightarrow> 'a ManagedMatrix" where
  "grow_block r c m =
     \<lparr>rows = r, cols = c,
      coeffs = map (\<lambda>i. map (\<lambda>j. if i < rows m \<and> j < cols m then coeff m i j else 0) [0..<c])
                 [0..<r]\<rparr>"

definition knot_addParameterization ::
  "uint \<Rightarrow> 'a::zero ManagedMatrix LqrKnotTpl \<Rightarrow> 'a ManagedMatrix LqrKnotTpl" where
  "knot_addParameterization n k =
     k\<lparr>nth_k := n,
       Gth := grow_block (unat n) (unat n) (Gth k),
       Gx := grow_block (unat n) (unat (nx k)) (Gx k),
       Gu := grow_block (unat n) (unat (nu k)) (Gu k),
       Gv := grow_block (unat (nc k)) (unat n) (Gv k),
       gamma := grow_block (unat n) 1 (gamma k)\<rparr>"

text \<open>
  The invariant of the spec's data model for the parameter blocks (``block shapes are
  always consistent with the declared dimensions''), and the relation between a block
  and the block it was grown from: inside the new shape, an entry is the old entry where
  the old block had one, and zero where it is newly added.
\<close>

definition parameter_blocks_shaped :: "'a ManagedMatrix LqrKnotTpl \<Rightarrow> bool" where
  "parameter_blocks_shaped k =
     (has_shape (unat (nth_k k)) (unat (nth_k k)) (Gth k) \<and>
      has_shape (unat (nth_k k)) (unat (nx k)) (Gx k) \<and>
      has_shape (unat (nth_k k)) (unat (nu k)) (Gu k) \<and>
      has_shape (unat (nc k)) (unat (nth_k k)) (Gv k) \<and>
      has_shape (unat (nth_k k)) 1 (gamma k))"

definition grown_from :: "'a::zero ManagedMatrix \<Rightarrow> 'a ManagedMatrix \<Rightarrow> bool" where
  "grown_from old new =
     (\<forall>i j. i < rows new \<and> j < cols new \<longrightarrow>
        coeff new i j = (if i < rows old \<and> j < cols old then coeff old i j else 0))"

section \<open>Properties\<close>

lemma vec_at_Nil: "vec_at [] i = Inl OutOfBounds"
  by (simp add: vec_at_def)

lemma vec_at_in_range: "i < length xs \<Longrightarrow> vec_at xs i = Inr (xs ! i)"
  by (simp add: vec_at_def)


subsection \<open>The horizon\<close>

lemma sint_of_nat_small: "n \<le> 2147483647 \<Longrightarrow> sint (word_of_nat n :: 32 word) = int n"
  by (simp add: signed_of_nat signed_take_bit_int_eq_self)

lemma horizon_small:
  "length (stages p) \<le> 2147483647 \<Longrightarrow> horizon p = int (length (stages p)) - 1"
  by (simp add: horizon_def sint_of_nat_small)

lemma uint_horizon_eq: "uint_horizon p = word_of_nat (length (stages p)) - 1"
  by (simp add: uint_horizon_def horizon_def wi_hom_syms)

lemma unat_uint_horizon:
  assumes ne: "stages p \<noteq> []" and lt: "length (stages p) \<le> 2147483647"
  shows "unat (uint_horizon p) = length (stages p) - 1"
proof -
  from ne obtain m where m: "length (stages p) = Suc m"
    by (cases "stages p") simp_all
  have "uint_horizon p = word_of_nat m"
    by (simp add: uint_horizon_eq m)
  moreover have "m < 4294967296"
    using lt m by arith
  then have "unat (word_of_nat m :: 32 word) = m"
    by (simp add: unat_of_nat)
  ultimately show ?thesis by (simp add: m)
qed

lemma length_problem_of: "length (stages (problem_of n)) = n"
  by (simp add: problem_of_def)

text \<open>
  The cast to \<^verbatim>\<open>int\<close> bounds the stage counts for which \<^verbatim>\<open>horizon()\<close> is the count minus
  one. A problem of \<open>2 ^ 31 + 1\<close> stages has the horizon \<open>- 2 ^ 31\<close>: the cast gives
  \<open>- (2 ^ 31 - 1)\<close>.
\<close>

lemma horizon_wraps_value: "horizon (problem_of 2147483649) = - 2147483648"
  by (simp add: horizon_def length_problem_of)

theorem horizon_wraps_counterexample:
  "horizon (problem_of 2147483649) \<noteq> int (length (stages (problem_of 2147483649))) - 1"
  by (simp add: horizon_def length_problem_of)

text \<open>
  Claim C7, as amended. \<^verbatim>\<open>horizon()\<close> is \<open>-1\<close> for a problem without stages, and for every
  problem of at most \<open>2 ^ 31 - 1\<close> stages (the largest \<^verbatim>\<open>int\<close>) it is the number of stages
  minus one: \<open>k - 1\<close> for \<open>k\<close> stages.
\<close>

theorem horizon_stage_count:
  "horizon (p\<lparr>stages := []\<rparr>) = - 1 \<and>
   (length (stages p) \<le> 2147483647 \<longrightarrow> horizon p = int (length (stages p)) - 1)"
  by (simp add: horizon_small)

theorem horizon_stage_count_witness:
  "length (stages (problem_of 3)) \<le> 2147483647 \<and> horizon (problem_of 3) = 2 \<and>
   horizon ((problem_of 3)\<lparr>stages := []\<rparr>) = - 1"
  using horizon_stage_count [of "problem_of 3"] by (simp add: length_problem_of)

subsection \<open>isParameterized and ntheta\<close>

text \<open>
  Claim C10. On a problem without stages \<^verbatim>\<open>isParameterized()\<close> returns false. Every read
  of \<^verbatim>\<open>stages[i]\<close> goes through \<open>vec_at\<close>, which fails on the empty sequence, and a
  failure is passed on; so the result \<open>Inr False\<close> also says that no stage was read.
  \<^verbatim>\<open>ntheta()\<close> reads \<^verbatim>\<open>stages[0]\<close> whatever the sequence is: the read is out of bounds on
  the empty sequence, and only there; on a sequence with a first stage it returns the
  \<^verbatim>\<open>nth\<close> of that stage.
\<close>

theorem isParameterized_guarded_ntheta_unguarded:
  "isParameterized (p\<lparr>stages := []\<rparr>) = Inr False \<and>
   ntheta (p\<lparr>stages := []\<rparr>) = Inl OutOfBounds \<and>
   ntheta (p\<lparr>stages := k # ks\<rparr>) = Inr (nth_k k) \<and>
   (ntheta p = Inl OutOfBounds) = (stages p = [])"
  by (cases "stages p") (simp_all add: isParameterized_def ntheta_def vec_at_def)

subsection \<open>Comparison of problems\<close>

lemma zero_less_uint_max: "(0 :: 32 word) < - 1"
  by (simp add: word_gt_0)

lemma isApprox_no_stage:
  "isApprox mapprox kapprox (p\<lparr>stages := []\<rparr>) (q\<lparr>stages := []\<rparr>) =
     (if mapprox (G0 p) (G0 q) \<and> mapprox (g0 p) (g0 q) then Inl OutOfBounds else Inr False)"
  by (simp add: isApprox_def uint_horizon_eq horizon_def isApprox_loop.simps [of _ _ _ _ 0]
      vec_at_def zero_less_uint_max)

lemma isApprox_one_stage:
  "isApprox mapprox kapprox (p\<lparr>stages := [a]\<rparr>) (q\<lparr>stages := [b]\<rparr>) =
     Inr (mapprox (G0 p) (G0 q) \<and> mapprox (g0 p) (g0 q))"
  by (simp add: isApprox_def uint_horizon_eq horizon_def isApprox_loop.simps [of _ _ _ _ 0])

lemma isApprox_loop_prefix:
  "unat h \<le> length st \<Longrightarrow> unat h \<le> length ost \<Longrightarrow>
   isApprox_loop kapprox st ost h i =
     Inr (\<forall>j. unat i \<le> j \<and> j < unat h \<longrightarrow> kapprox (st ! j) (ost ! j))"
proof (induction kapprox st ost h i rule: isApprox_loop.induct)
  case (1 kapprox st ost h i)
  show ?case
  proof (cases "i < h")
    case False
    then have "unat h \<le> unat i" by (simp add: word_less_nat_alt)
    with False show ?thesis by (auto simp add: isApprox_loop.simps [of _ _ _ h i])
  next
    case True
    then have lt: "unat i < unat h" by (simp add: word_less_nat_alt)
    have a: "vec_at st (unat i) = Inr (st ! unat i)"
      and b: "vec_at ost (unat i) = Inr (ost ! unat i)"
      using lt "1.prems" by (simp_all add: vec_at_def)
    have "1 + i \<noteq> 0"
    proof
      assume "1 + i = 0"
      then have "i = - 1" by (simp add: add_eq_0_iff)
      with True show False by simp
    qed
    then have next_i: "unat (i + 1) = Suc (unat i)"
      by (simp add: unatSuc add.commute)
    show ?thesis
    proof (cases "kapprox (st ! unat i) (ost ! unat i)")
      case False
      with True a b lt show ?thesis
        by (auto simp add: isApprox_loop.simps [of _ _ _ h i])
    next
      case yes: True
      have ih: "isApprox_loop kapprox st ost h (i + 1) =
          Inr (\<forall>j. unat (i + 1) \<le> j \<and> j < unat h \<longrightarrow> kapprox (st ! j) (ost ! j))"
        using "1.IH" [OF True a b _ "1.prems"] yes by simp
      have "(\<forall>j. Suc (unat i) \<le> j \<and> j < unat h \<longrightarrow> kapprox (st ! j) (ost ! j)) =
            (\<forall>j. unat i \<le> j \<and> j < unat h \<longrightarrow> kapprox (st ! j) (ost ! j))"
      proof (intro iffI allI impI)
        fix j
        assume all: "\<forall>j. Suc (unat i) \<le> j \<and> j < unat h \<longrightarrow> kapprox (st ! j) (ost ! j)"
          and j: "unat i \<le> j \<and> j < unat h"
        show "kapprox (st ! j) (ost ! j)"
        proof (cases "j = unat i")
          case True
          with yes show ?thesis by simp
        next
          case False
          with j have "Suc (unat i) \<le> j \<and> j < unat h" by simp
          with all show ?thesis by blast
        qed
      next
        fix j
        assume all: "\<forall>j. unat i \<le> j \<and> j < unat h \<longrightarrow> kapprox (st ! j) (ost ! j)"
          and j: "Suc (unat i) \<le> j \<and> j < unat h"
        then have "unat i \<le> j \<and> j < unat h" by simp
        with all show "kapprox (st ! j) (ost ! j)" by blast
      qed
      with True a b yes ih show ?thesis
        by (simp add: isApprox_loop.simps [of _ _ _ h i] next_i)
    qed
  qed
qed

lemma isApprox_all_but_last:
  assumes ne: "stages p \<noteq> []"
    and lp: "length (stages p) \<le> 2147483647"
    and lq: "length (stages q) \<le> 2147483647"
  shows "isApprox mapprox kapprox p q =
     Inr (length (stages p) = length (stages q) \<and> mapprox (G0 p) (G0 q) \<and> mapprox (g0 p) (g0 q) \<and>
          (\<forall>j. j < length (stages p) - 1 \<longrightarrow> kapprox (stages p ! j) (stages q ! j)))"
proof (cases "length (stages p) = length (stages q)")
  case False
  then have "horizon p \<noteq> horizon q"
    using lp lq by (simp add: horizon_small)
  with False show ?thesis by (simp add: isApprox_def)
next
  case True
  then have h: "horizon p = horizon q"
    by (simp add: horizon_def)
  have u: "unat (uint_horizon p) = length (stages p) - 1"
    using ne lp by (simp add: unat_uint_horizon)
  have "isApprox_loop kapprox (stages p) (stages q) (uint_horizon p) 0 =
      Inr (\<forall>j. unat (0 :: 32 word) \<le> j \<and> j < unat (uint_horizon p) \<longrightarrow>
             kapprox (stages p ! j) (stages q ! j))"
    by (rule isApprox_loop_prefix) (simp_all add: u True [symmetric])
  with True h u show ?thesis by (simp add: isApprox_def)
qed

lemma knots_differ: "nx knot_210 \<noteq> nx knot_310"
  by (simp add: knot_210_def knot_310_def LqrKnot_def)

text \<open>
  Claim C1 says that \<^verbatim>\<open>isApprox\<close> compares all \<^verbatim>\<open>horizon() + 1\<close> stage pairs, the last
  included. The loop runs while \<^verbatim>\<open>i < uint(horizon())\<close>, so the pair of last stages is
  never compared (\<open>isApprox_all_but_last\<close>). Two problems with equal \<open>G0\<close> and \<open>g0\<close> and
  one stage each compare as approximately equal whatever the comparison of knots says,
  here for two knots of different dimensions; so do two problems of three stages that
  differ in the last stage, under the comparison of knots by equality.
\<close>

theorem isApprox_skips_last_stage:
  "nx knot_210 \<noteq> nx knot_310 \<and>
   isApprox (=) kapprox ((problem_of 1)\<lparr>stages := [knot_210]\<rparr>)
     ((problem_of 1)\<lparr>stages := [knot_310]\<rparr>) = Inr True \<and>
   isApprox (=) (=) ((problem_of 3)\<lparr>stages := [knot_210, knot_210, knot_210]\<rparr>)
     ((problem_of 3)\<lparr>stages := [knot_210, knot_210, knot_310]\<rparr>) = Inr True"
  by (simp add: knots_differ isApprox_one_stage isApprox_all_but_last less_Suc_eq)

text \<open>
  On problems with at least one stage (and a stage count that fits an \<^verbatim>\<open>int\<close>) the
  comparison is reflexive and symmetric as soon as the comparisons of blocks and of
  knots are.
\<close>

lemma isApprox_refl_nonempty:
  assumes "stages p \<noteq> []" and "length (stages p) \<le> 2147483647"
    and "\<And>m. mapprox m m" and "\<And>k. kapprox k k"
  shows "isApprox mapprox kapprox p p = Inr True"
  using assms by (simp add: isApprox_all_but_last)

lemma isApprox_sym_nonempty:
  assumes "stages p \<noteq> []" and "stages q \<noteq> []"
    and "length (stages p) \<le> 2147483647" and "length (stages q) \<le> 2147483647"
    and "\<And>a b. mapprox a b = mapprox b a" and "\<And>a b. kapprox a b = kapprox b a"
  shows "isApprox mapprox kapprox p q = isApprox mapprox kapprox q p"
proof -
  have "mapprox (G0 p) (G0 q) = mapprox (G0 q) (G0 p)"
    and "mapprox (g0 p) (g0 q) = mapprox (g0 q) (g0 p)"
    and "\<And>j. kapprox (stages p ! j) (stages q ! j) = kapprox (stages q ! j) (stages p ! j)"
    using assms(5,6) by blast+
  then show ?thesis
    using assms(1-4) by (auto simp add: isApprox_all_but_last)
qed

text \<open>
  Claim C4 says that \<^verbatim>\<open>p.isApprox(p)\<close> is true for every problem, the empty one included.
  On a problem without stages \<^verbatim>\<open>uint(horizon())\<close> is \<open>2 ^ 32 - 1\<close>, the loop is entered
  with \<open>i = 0\<close>, and \<^verbatim>\<open>stages[0]\<close> is read out of bounds: the comparison of the empty
  problem of the scenario with itself does not return, and no comparison of an empty
  problem with itself returns true.
\<close>

theorem isApprox_empty_problem_out_of_bounds:
  "isApprox (=) kapprox (problem_of 0) (problem_of 0) = Inl OutOfBounds \<and>
   isApprox mapprox kapprox (p\<lparr>stages := []\<rparr>) (p\<lparr>stages := []\<rparr>) \<noteq> Inr True"
  using isApprox_no_stage [of "(=)" kapprox "problem_of 0" "problem_of 0"]
  by (simp add: isApprox_no_stage problem_of_def)

subsection \<open>Growing the parameterization of a problem\<close>

lemma addParameterization_loop_maps:
  "length st = Suc (unat h) \<Longrightarrow> length st < 4294967296 \<Longrightarrow> unat i \<le> length st \<Longrightarrow>
     addParameterization_loop kadd n h i st =
       Some (Inr (take (unat i) st @ map (kadd n) (drop (unat i) st)))"
proof (induction "length st - unat i" arbitrary: i st)
  case 0
  then have eq: "unat i = Suc (unat h)" by simp
  then have "\<not> i \<le> h" by (simp add: word_le_nat_alt)
  then show ?case
    using eq 0 by (simp add: addParameterization_loop.simps [of _ _ h i])
next
  case (Suc d)
  then have lt: "unat i < length st" by simp
  then have le: "i \<le> h" using Suc.prems by (simp add: word_le_nat_alt)
  have at: "vec_at st (unat i) = Inr (st ! unat i)"
    using lt by (simp add: vec_at_def)
  have "unat i < 4294967295"
    using lt Suc.prems by arith
  then have "unat i + unat (1 :: 32 word) < 2 ^ LENGTH(32)"
    by simp
  then have "unat (i + 1) = unat i + unat (1 :: 32 word)"
    by (simp only: unat_add_lem)
  then have next_i: "unat (i + 1) = Suc (unat i)"
    by simp
  let ?st = "st[unat i := kadd n (st ! unat i)]"
  have "addParameterization_loop kadd n h (i + 1) ?st =
      Some (Inr (take (unat (i + 1)) ?st @ map (kadd n) (drop (unat (i + 1)) ?st)))"
    using Suc.hyps(2) Suc.prems lt by (intro Suc.hyps(1)) (simp_all add: next_i)
  also have "take (unat (i + 1)) ?st @ map (kadd n) (drop (unat (i + 1)) ?st) =
      take (unat i) st @ map (kadd n) (drop (unat i) st)"
    using lt
    by (simp add: next_i take_Suc_conv_app_nth Cons_nth_drop_Suc [symmetric])
  finally show ?case
    using le at by (simp add: addParameterization_loop.simps [of _ _ h i])
qed

lemma addParameterization_maps:
  assumes small: "length (stages p) \<le> 2147483647"
  shows "addParameterization kadd n p = Some (Inr (p\<lparr>stages := map (kadd n) (stages p)\<rparr>))"
proof (cases "stages p = []")
  case True
  then show ?thesis by (simp add: addParameterization_def)
next
  case False
  then have "length (stages p) = Suc (unat (uint_horizon p))"
    using small by (simp add: unat_uint_horizon)
  then have "addParameterization_loop kadd n (uint_horizon p) 0 (stages p) =
      Some (Inr (take (unat (0 :: 32 word)) (stages p)
        @ map (kadd n) (drop (unat (0 :: 32 word)) (stages p))))"
    using small by (intro addParameterization_loop_maps) simp_all
  with False show ?thesis by (simp add: addParameterization_def)
qed

text \<open>
  Claim C8, as amended. On a problem without stages \<^verbatim>\<open>addParameterization(nth)\<close> returns
  and leaves the problem as it is. On every problem of at most \<open>2 ^ 31 - 1\<close> stages (the
  largest \<^verbatim>\<open>int\<close>, so that \<^verbatim>\<open>horizon()\<close> does not overflow) the sequence has
  \<^verbatim>\<open>horizon() + 1\<close> stages, and the call returns, reads nothing out of bounds, and has
  applied the knot-level \<^verbatim>\<open>addParameterization(nth)\<close> once to every one of them, leaving
  \<open>G0\<close> and \<open>g0\<close> as they are.
\<close>

theorem addParameterization_every_stage:
  "addParameterization kadd n (p\<lparr>stages := []\<rparr>) = Some (Inr (p\<lparr>stages := []\<rparr>)) \<and>
   (length (stages p) \<le> 2147483647 \<longrightarrow>
      int (length (stages p)) = horizon p + 1 \<and>
      addParameterization kadd n p = Some (Inr (p\<lparr>stages := map (kadd n) (stages p)\<rparr>)))"
  by (simp add: addParameterization_maps horizon_small)

theorem addParameterization_every_stage_witness:
  "length (stages (problem_of 3)) \<le> 2147483647 \<and>
   int (length (stages (problem_of 3))) = horizon (problem_of 3) + 1 \<and>
   addParameterization set_nth 2 (problem_of 3) =
     Some (Inr ((problem_of 3)\<lparr>stages := replicate 3 (set_nth 2 knot_210)\<rparr>))"
  using addParameterization_every_stage [of set_nth 2 "problem_of 3"]
  by (simp add: problem_of_def)

text \<open>
  The loop counts up to \<^verbatim>\<open>(uint)horizon()\<close>. For a problem of \<open>2 ^ 32 + 1\<close> stages that
  bound is \<open>0\<close>, and only the first stage is grown.
\<close>

lemma stages_problem_of: "stages (problem_of n) = replicate n knot_210"
  by (simp add: problem_of_def)

lemma uint_horizon_wrapped: "uint_horizon (problem_of 4294967297) = 0"
  by (simp add: uint_horizon_eq length_problem_of)

lemma addParameterization_wrapped:
  "addParameterization kadd n (problem_of 4294967297) =
     Some (Inr ((problem_of 4294967297)\<lparr>stages := (replicate 4294967297 knot_210)[0 := kadd n knot_210]\<rparr>))"
  apply (simp add: addParameterization_def uint_horizon_wrapped)
  apply (simp add: addParameterization_loop.simps [of _ _ 0 0] addParameterization_loop.simps [of _ _ 0 1] vec_at_def)
  apply (simp add: problem_of_def)
  done

theorem addParameterization_wraps_counterexample:
  "addParameterization set_nth 2 (problem_of 4294967297) \<noteq>
     Some (Inr ((problem_of 4294967297)\<lparr>stages := map (set_nth 2) (stages (problem_of 4294967297))\<rparr>))"
proof
  assume "addParameterization set_nth 2 (problem_of 4294967297) =
     Some (Inr ((problem_of 4294967297)\<lparr>stages := map (set_nth 2) (stages (problem_of 4294967297))\<rparr>))"
  then have "(problem_of 4294967297)\<lparr>stages := (replicate 4294967297 knot_210)[0 := set_nth 2 knot_210]\<rparr> =
      (problem_of 4294967297)\<lparr>stages := map (set_nth 2) (stages (problem_of 4294967297))\<rparr>"
    by (simp only: addParameterization_wrapped option.inject sum.inject)
  then have "stages ((problem_of 4294967297)\<lparr>stages := (replicate 4294967297 knot_210)[0 := set_nth 2 knot_210]\<rparr>) =
      stages ((problem_of 4294967297)\<lparr>stages := map (set_nth 2) (stages (problem_of 4294967297))\<rparr>)"
    by (rule arg_cong)
  then have "(replicate 4294967297 knot_210)[0 := set_nth 2 knot_210] =
      map (set_nth 2) (replicate 4294967297 knot_210)"
    by (simp add: stages_problem_of)
  then have "(replicate 4294967297 knot_210)[0 := set_nth 2 knot_210] ! 1 =
      map (set_nth 2) (replicate 4294967297 knot_210) ! 1"
    by (rule arg_cong)
  then have "knot_210 = set_nth 2 knot_210"
    by simp
  then have "nth_k knot_210 = nth_k (set_nth 2 knot_210)"
    by (rule arg_cong)
  then show False
    by (simp add: set_nth_def knot_210_def LqrKnot_def)
qed

subsection \<open>Printing\<close>

text \<open>
  What an optimized build writes: the header line, \<open>nx\<close>, \<open>nu\<close>, \<open>nc\<close>, then \<open>nth\<close> when it
  is positive, and the closing brace. In every build the parameter blocks are written
  only when \<open>nth\<close> is positive.
\<close>

lemma operator_shl_release:
  "operator_shl True eigenPrintWithPreamble oss self =
     oss @ ''LqrKnot {'' @ newline @ ''  nx:  '' @ format_d (unat (nx self))
         @ newline @ ''  nu:  '' @ format_d (unat (nu self))
         @ newline @ ''  nc:  '' @ format_d (unat (nc self))
         @ (if nth_k self > 0 then newline @ ''  nth: '' @ format_d (unat (nth_k self)) else [])
         @ newline @ ''}''"
  by (simp add: operator_shl_def Let_def)

lemma operator_shl_unparameterized:
  "nth_k self = 0 \<Longrightarrow>
   operator_shl ndebug eigenPrintWithPreamble oss (self\<lparr>Gth := a, Gx := b, Gu := c, gamma := e\<rparr>) =
   operator_shl ndebug eigenPrintWithPreamble oss self"
  by (simp add: operator_shl_def Let_def)

text \<open>
  Claim C9 says that a debug build prints every block, \<open>Gv\<close> included when \<open>nth > 0\<close>.
  The operator passes \<open>Gth\<close>, \<open>Gx\<close>, \<open>Gu\<close> and \<open>gamma\<close> to the printer and never \<open>Gv\<close>:
  in every build, for every printer of blocks, the text written for a knot stays the
  same when \<open>Gv\<close> is replaced by any other block.
\<close>

theorem operator_shl_never_prints_Gv:
  "operator_shl ndebug eigenPrintWithPreamble oss (self\<lparr>Gv := m\<rparr>) =
   operator_shl ndebug eigenPrintWithPreamble oss self"
  by (simp add: operator_shl_def Let_def)

subsection \<open>Growing the parameterization of a knot\<close>

lemma has_shape_grow_block: "has_shape r c (grow_block r c m)"
  by (simp add: has_shape_def grow_block_def wf_matrix_def list_all_iff)

lemma coeff_grow_block:
  "i < r \<Longrightarrow> j < c \<Longrightarrow>
   coeff (grow_block r c m) i j = (if i < rows m \<and> j < cols m then coeff m i j else 0)"
  by (simp add: grow_block_def coeff_def)

lemma grow_block_same_shape:
  assumes "has_shape r c m"
  shows "grow_block r c m = m"
proof -
  from assms have r: "rows m = r" and c: "cols m = c" and len: "length (coeffs m) = r"
    and rowlen: "\<And>i. i < r \<Longrightarrow> length (coeffs m ! i) = c"
    by (auto simp add: has_shape_def wf_matrix_def list_all_length)
  have "map (\<lambda>i. map (\<lambda>j. if i < rows m \<and> j < cols m then coeff m i j else 0) [0..<c]) [0..<r] = coeffs m"
  proof (rule nth_equalityI)
    show "length (map (\<lambda>i. map (\<lambda>j. if i < rows m \<and> j < cols m then coeff m i j else 0) [0..<c]) [0..<r]) = length (coeffs m)"
      by (simp add: len)
  next
    fix i
    assume "i < length (map (\<lambda>i. map (\<lambda>j. if i < rows m \<and> j < cols m then coeff m i j else 0) [0..<c]) [0..<r])"
    then have i: "i < r" by simp
    have "map (\<lambda>j. if i < rows m \<and> j < cols m then coeff m i j else 0) [0..<c] = coeffs m ! i"
      by (rule nth_equalityI) (simp_all add: i r c rowlen coeff_def)
    with i show "map (\<lambda>i. map (\<lambda>j. if i < rows m \<and> j < cols m then coeff m i j else 0) [0..<c]) [0..<r] ! i = coeffs m ! i"
      by (simp cong: if_cong)
  qed
  then show ?thesis
    by (simp add: grow_block_def r [symmetric] c [symmetric])
qed

lemma knot_addParameterization_frame:
  "nx (knot_addParameterization n k) = nx k \<and> nu (knot_addParameterization n k) = nu k \<and>
   nc (knot_addParameterization n k) = nc k \<and> nx2 (knot_addParameterization n k) = nx2 k \<and>
   Q_k (knot_addParameterization n k) = Q_k k \<and> S_k (knot_addParameterization n k) = S_k k \<and>
   R_k (knot_addParameterization n k) = R_k k \<and> q_k (knot_addParameterization n k) = q_k k \<and>
   r_k (knot_addParameterization n k) = r_k k \<and> A_k (knot_addParameterization n k) = A_k k \<and>
   B_k (knot_addParameterization n k) = B_k k \<and> E_k (knot_addParameterization n k) = E_k k \<and>
   f_k (knot_addParameterization n k) = f_k k \<and> C_k (knot_addParameterization n k) = C_k k \<and>
   D_k (knot_addParameterization n k) = D_k k \<and> d_k (knot_addParameterization n k) = d_k k"
  by (simp add: knot_addParameterization_def)

lemma knot_addParameterization_shaped:
  "nth_k (knot_addParameterization n k) = n \<and> parameter_blocks_shaped (knot_addParameterization n k)"
  by (simp add: knot_addParameterization_def parameter_blocks_shaped_def has_shape_grow_block)

lemma knot_addParameterization_current:
  "parameter_blocks_shaped k \<Longrightarrow> knot_addParameterization (nth_k k) k = k"
  by (simp add: knot_addParameterization_def parameter_blocks_shaped_def grow_block_same_shape)

lemma shape_grow_block: "rows (grow_block r c m) = r \<and> cols (grow_block r c m) = c"
  by (simp add: grow_block_def)

lemma grown_from_grow_block: "grown_from m (grow_block r c m)"
  by (simp add: grown_from_def shape_grow_block coeff_grow_block)

lemma knot_addParameterization_entries:
  "grown_from (Gth k) (Gth (knot_addParameterization n k)) \<and>
   grown_from (Gx k) (Gx (knot_addParameterization n k)) \<and>
   grown_from (Gu k) (Gu (knot_addParameterization n k)) \<and>
   grown_from (Gv k) (Gv (knot_addParameterization n k)) \<and>
   grown_from (gamma k) (gamma (knot_addParameterization n k))"
  by (simp add: knot_addParameterization_def grown_from_grow_block)

text \<open>
  Claim C3, against the model of \<^verbatim>\<open>LqrKnotTpl::addParameterization\<close> written from the
  spec. For every knot and every \<open>nth'\<close> at least the knot's \<open>nth\<close>, after
  \<^verbatim>\<open>addParameterization(nth')\<close> the dimensions \<open>nx\<close>, \<open>nu\<close>, \<open>nc\<close>, \<open>nx2\<close> and the blocks
  \<open>Q\<close>, \<open>S\<close>, \<open>R\<close>, \<open>q\<close>, \<open>r\<close>, \<open>A\<close>, \<open>B\<close>, \<open>E\<close>, \<open>f\<close>, \<open>C\<close>, \<open>D\<close>, \<open>d\<close> are the same; \<open>nth\<close> is
  \<open>nth'\<close> and \<open>Gth\<close>, \<open>Gx\<close>, \<open>Gu\<close>, \<open>Gv\<close>, \<open>gamma\<close> have the shapes that \<open>nth'\<close> determines;
  in each of them the entries the old block did not have are zero (and the others are
  the old entries); and on a knot whose parameter blocks have the shapes of its \<open>nth\<close>,
  the call with that \<open>nth\<close> returns the knot unchanged. The spec leaves a call with a
  smaller \<open>nth'\<close> open, and so does the statement.
\<close>

theorem knot_addParameterization_grows:
  assumes "nth_k k \<le> n"
  shows "(nx (knot_addParameterization n k) = nx k \<and> nu (knot_addParameterization n k) = nu k \<and>
   nc (knot_addParameterization n k) = nc k \<and> nx2 (knot_addParameterization n k) = nx2 k \<and>
   Q_k (knot_addParameterization n k) = Q_k k \<and> S_k (knot_addParameterization n k) = S_k k \<and>
   R_k (knot_addParameterization n k) = R_k k \<and> q_k (knot_addParameterization n k) = q_k k \<and>
   r_k (knot_addParameterization n k) = r_k k \<and> A_k (knot_addParameterization n k) = A_k k \<and>
   B_k (knot_addParameterization n k) = B_k k \<and> E_k (knot_addParameterization n k) = E_k k \<and>
   f_k (knot_addParameterization n k) = f_k k \<and> C_k (knot_addParameterization n k) = C_k k \<and>
   D_k (knot_addParameterization n k) = D_k k \<and> d_k (knot_addParameterization n k) = d_k k) \<and>
   (nth_k (knot_addParameterization n k) = n \<and>
    parameter_blocks_shaped (knot_addParameterization n k)) \<and>
   (grown_from (Gth k) (Gth (knot_addParameterization n k)) \<and>
    grown_from (Gx k) (Gx (knot_addParameterization n k)) \<and>
    grown_from (Gu k) (Gu (knot_addParameterization n k)) \<and>
    grown_from (Gv k) (Gv (knot_addParameterization n k)) \<and>
    grown_from (gamma k) (gamma (knot_addParameterization n k))) \<and>
   (parameter_blocks_shaped k \<longrightarrow> knot_addParameterization (nth_k k) k = k)"
  using knot_addParameterization_frame [of n k] knot_addParameterization_shaped [of n k]
    knot_addParameterization_entries [of k n] knot_addParameterization_current [of k]
  by blast

text \<open>
  The scenario of the spec: the knot with \<open>nx = 2\<close>, \<open>nu = 1\<close>, \<open>nc = 0\<close>, \<open>nx2 = 2\<close>,
  \<open>nth = 0\<close> after \<^verbatim>\<open>addParameterization(2)\<close> has a zero \<open>Gth\<close> of shape \<open>2 \<times> 2\<close> and a zero
  \<open>gamma\<close> of length 2, and its \<open>Q\<close> is unchanged.
\<close>

lemma parameter_blocks_shaped_knot_210: "parameter_blocks_shaped knot_210"
  by (simp add: parameter_blocks_shaped_def knot_210_def LqrKnot_def has_shape_def
      wf_matrix_def zero_matrix_def)

lemma grow_empty_block:
  "grow_block 2 2 (zero_matrix 0 0) = (zero_matrix 2 2 :: int ManagedMatrix) \<and>
   grow_block 2 (Suc 0) (zero_matrix 0 (Suc 0)) = (zero_matrix 2 (Suc 0) :: int ManagedMatrix)"
  by code_simp

lemma knot_210_grown_blocks:
  "Gth (knot_addParameterization 2 knot_210) = zero_matrix 2 2 \<and>
   gamma (knot_addParameterization 2 knot_210) = zero_matrix 2 1"
  by (simp add: knot_addParameterization_def knot_210_def LqrKnot_def grow_empty_block)

theorem knot_addParameterization_grows_witness:
  "nth_k knot_210 \<le> 2 \<and> parameter_blocks_shaped knot_210 \<and>
   Q_k (knot_addParameterization 2 knot_210) = Q_k knot_210 \<and>
   nth_k (knot_addParameterization 2 knot_210) = 2 \<and>
   parameter_blocks_shaped (knot_addParameterization 2 knot_210) \<and>
   grown_from (Gth knot_210) (Gth (knot_addParameterization 2 knot_210)) \<and>
   Gth (knot_addParameterization 2 knot_210) = zero_matrix 2 2 \<and>
   gamma (knot_addParameterization 2 knot_210) = zero_matrix 2 1 \<and>
   knot_addParameterization (nth_k knot_210) knot_210 = knot_210"
proof -
  have le: "nth_k knot_210 \<le> 2"
    by (simp add: knot_210_def LqrKnot_def)
  show ?thesis
    using le knot_addParameterization_grows [OF le] parameter_blocks_shaped_knot_210
      knot_210_grown_blocks
    by simp
qed


end
